theory Spec2Isabelle
  imports Complex_Main
begin

section \<open>JavaScript strings and numbers as the ingestion code uses them\<close>

text \<open>
  Cells of the delimited file are JavaScript strings; they are modelled as \<open>string\<close>, one
  \<open>char\<close> per code unit (the files of the repository are ASCII). The numbers the code
  computes with are modelled exactly: \<open>parseInt\<close> yields an integer or \<open>NaN\<close>,
  \<open>parseFloat\<close> yields the mathematical value of the decimal literal it reads, an infinity
  or \<open>NaN\<close>. The final rounding of a mathematical value to an IEEE double is a function of
  that value and is left out; it never turns a number into \<open>NaN\<close> or back.
\<close>

definition isWhiteSpace :: "char \<Rightarrow> bool" where
  "isWhiteSpace c \<longleftrightarrow> c \<in> set [CHR '' '', CHR 0x09, CHR 0x0A, CHR 0x0B, CHR 0x0C, CHR 0x0D]"

definition trimStart :: "string \<Rightarrow> string" where
  "trimStart s = dropWhile isWhiteSpace s"

definition trim :: "string \<Rightarrow> string" where
  "trim s = rev (dropWhile isWhiteSpace (rev (dropWhile isWhiteSpace s)))"

text \<open>\<open>s.replace(c, '')\<close> with a string pattern removes the first occurrence only.\<close>

fun replace_first :: "char \<Rightarrow> string \<Rightarrow> string" where
  "replace_first c [] = []"
| "replace_first c (x # xs) = (if x = c then xs else x # replace_first c xs)"

text \<open>\<open>s.split(c)\<close>: the pieces between the occurrences of \<open>c\<close>, never an empty list.\<close>

fun split :: "char \<Rightarrow> string \<Rightarrow> string list" where
  "split c [] = [[]]"
| "split c (x # xs) =
     (if x = c then [] # split c xs
      else (case split c xs of p # ps \<Rightarrow> (x # p) # ps | [] \<Rightarrow> [[x]]))"

text \<open>The value of a digit, from its character code; \<open>None\<close> for any other character.\<close>

definition charCode :: "char \<Rightarrow> int" where
  "charCode c = of_char c"

definition digitValue :: "char \<Rightarrow> int option" where
  "digitValue c =
     (let k = charCode c in if 48 \<le> k \<and> k \<le> 57 then Some (k - 48) else None)"

definition hexDigitValue :: "char \<Rightarrow> int option" where
  "hexDigitValue c =
     (let k = charCode c
      in if 48 \<le> k \<and> k \<le> 57 then Some (k - 48)
         else if 97 \<le> k \<and> k \<le> 102 then Some (k - 87)
         else if 65 \<le> k \<and> k \<le> 70 then Some (k - 55)
         else None)"

text \<open>
  \<open>scanDigits dv s\<close> reads the longest prefix of \<open>s\<close> made of digits (as \<open>dv\<close> tells them),
  and returns their values and the rest of the string.
\<close>

fun scanDigits :: "(char \<Rightarrow> int option) \<Rightarrow> string \<Rightarrow> int list \<times> string" where
  "scanDigits dv [] = ([], [])"
| "scanDigits dv (c # cs) =
     (case dv c of
        None \<Rightarrow> ([], c # cs)
      | Some d \<Rightarrow> (case scanDigits dv cs of (ds, rest) \<Rightarrow> (d # ds, rest)))"

definition digitsValue :: "int \<Rightarrow> int list \<Rightarrow> int" where
  "digitsValue radix ds = foldl (\<lambda>acc d. acc * radix + d) 0 ds"

text \<open>An optional sign: the factor it stands for and the string after it.\<close>

fun scanSign :: "string \<Rightarrow> int \<times> string" where
  "scanSign [] = (1, [])"
| "scanSign (c # cs) =
     (if c = CHR ''-'' then (- 1, cs) else if c = CHR ''+'' then (1, cs) else (1, c # cs))"

text \<open>
  \<open>parseInt(s)\<close> with no radix: leading white space is skipped, a sign is read, a prefix
  \<open>0x\<close> or \<open>0X\<close> selects radix 16, and the longest run of digits is the value.
  \<open>None\<close> is \<open>NaN\<close> (no digit was found).
\<close>

definition parseInt :: "string \<Rightarrow> int option" where
  "parseInt s =
     (case scanSign (trimStart s) of (sign, body) \<Rightarrow>
        (case body of
           c1 # c2 # hex \<Rightarrow>
             if c1 = CHR ''0'' \<and> (c2 = CHR ''x'' \<or> c2 = CHR ''X'') then
               (case scanDigits hexDigitValue hex of
                  ([], _) \<Rightarrow> None
                | (ds, _) \<Rightarrow> Some (sign * (digitsValue 16 ds)))
             else
               (case scanDigits digitValue body of
                  ([], _) \<Rightarrow> None
                | (ds, _) \<Rightarrow> Some (sign * (digitsValue 10 ds)))
         | _ \<Rightarrow>
             (case scanDigits digitValue body of
                ([], _) \<Rightarrow> None
              | (ds, _) \<Rightarrow> Some (sign * (digitsValue 10 ds)))))"

text \<open>
  A Number as \<open>parseFloat\<close> produces it: \<open>NaN\<close>, an infinity (\<open>True\<close> for the positive
  one) or a finite decimal \<open>Decimal m e\<close> that stands for \<open>m * 10 ^ e\<close>.
\<close>

datatype number = NaN | Infinity bool | Decimal int int

definition pow10 :: "int \<Rightarrow> rat" where
  "pow10 e = (if 0 \<le> e then 10 ^ nat e else 1 / 10 ^ nat (- e))"

fun numberValue :: "number \<Rightarrow> rat option" where
  "numberValue (Decimal m e) = Some (of_int m * pow10 e)"
| "numberValue _ = None"

fun isNaN :: "number \<Rightarrow> bool" where
  "isNaN NaN = True"
| "isNaN _ = False"

text \<open>
  The exponent part of a decimal literal: \<open>e\<close> or \<open>E\<close>, an optional sign and at least one
  digit. When it is not complete the literal ends before it and the exponent is 0.
\<close>

definition scanExponent :: "string \<Rightarrow> int" where
  "scanExponent s =
     (case s of
        [] \<Rightarrow> 0
      | c # cs \<Rightarrow>
          if c = CHR ''e'' \<or> c = CHR ''E'' then
            (case scanSign cs of (sign, body) \<Rightarrow>
               (case scanDigits digitValue body of
                  ([], _) \<Rightarrow> 0
                | (ds, _) \<Rightarrow> sign * (digitsValue 10 ds)))
          else 0)"

text \<open>
  \<open>parseFloat(s)\<close>: leading white space is skipped and the longest prefix that is a decimal
  literal (\<open>Infinity\<close>, or digits with an optional fraction and exponent, after an optional
  sign) is the value; when there is no such prefix the result is \<open>NaN\<close>.
\<close>

definition parseFloat :: "string \<Rightarrow> number" where
  "parseFloat s =
     (case scanSign (trimStart s) of (sign, body) \<Rightarrow>
        if take 8 body = ''Infinity'' then Infinity (sign = 1)
        else
          (case scanDigits digitValue body of (ids, rest1) \<Rightarrow>
             (case (case rest1 of
                      c # cs \<Rightarrow> if c = CHR ''.'' then scanDigits digitValue cs else ([], rest1)
                    | [] \<Rightarrow> ([], rest1)) of
                (fds, rest2) \<Rightarrow>
                  if ids = [] \<and> fds = [] then NaN
                  else Decimal (sign * (digitsValue 10 (ids @ fds)))
                               (scanExponent rest2 - int (length fds)))))"

section \<open>Dates\<close>

text \<open>
  \<open>new Date(year, monthIndex, day)\<close> and \<open>getFullYear()\<close>, following the ECMAScript
  algorithms \<open>MakeDay\<close>, \<open>MakeDate\<close>, \<open>TimeClip\<close> and \<open>YearFromTime\<close> on integers. A
  time value is a number of milliseconds since 1 January 1970 UTC; \<open>None\<close> is the invalid
  date (time value \<open>NaN\<close>). The server's time zone is a fixed offset \<open>tz\<close> in milliseconds
  (daylight saving changes are not modelled).
\<close>

definition msPerDay :: int where
  "msPerDay = 86400000"

definition DayFromYear :: "int \<Rightarrow> int" where
  "DayFromYear y =
     365 * (y - 1970) + (y - 1969) div 4 - (y - 1901) div 100 + (y - 1601) div 400"

definition TimeFromYear :: "int \<Rightarrow> int" where
  "TimeFromYear y = msPerDay * DayFromYear y"

definition Day :: "int \<Rightarrow> int" where
  "Day t = t div msPerDay"

definition isLeapYear :: "int \<Rightarrow> bool" where
  "isLeapYear y \<longleftrightarrow> (y mod 4 = 0 \<and> y mod 100 \<noteq> 0) \<or> y mod 400 = 0"

text \<open>
  The year of a time value is the largest \<open>y\<close> with \<open>TimeFromYear y \<le> t\<close>. It is computed
  from an estimate that is off by one year at most (\<open>146097\<close> days are 400 years).
\<close>

definition YearFromDay :: "int \<Rightarrow> int" where
  "YearFromDay d =
     (let y = 1970 + (d * 400) div 146097
      in if DayFromYear (y + 1) \<le> d then y + 1
         else if DayFromYear y \<le> d then y
         else y - 1)"

definition YearFromTime :: "int \<Rightarrow> int" where
  "YearFromTime t = YearFromDay (Day t)"

text \<open>The number of days of a year that lie before its month \<open>m\<close> (0 is January).\<close>

definition DayFromMonth :: "int \<Rightarrow> bool \<Rightarrow> int" where
  "DayFromMonth m leap =
     (if m \<le> 0 then 0 else if m = 1 then 31
      else (if leap then 1 else 0) +
        (if m = 2 then 59 else if m = 3 then 90 else if m = 4 then 120
         else if m = 5 then 151 else if m = 6 then 181 else if m = 7 then 212
         else if m = 8 then 243 else if m = 9 then 273 else if m = 10 then 304
         else if m = 11 then 334 else 365))"

definition DayWithinYear :: "int \<Rightarrow> int" where
  "DayWithinYear t = Day t - DayFromYear (YearFromTime t)"

definition MonthFromTime :: "int \<Rightarrow> int" where
  "MonthFromTime t =
     (let d = DayWithinYear t; leap = isLeapYear (YearFromTime t)
      in if d < DayFromMonth 1 leap then 0 else if d < DayFromMonth 2 leap then 1
         else if d < DayFromMonth 3 leap then 2 else if d < DayFromMonth 4 leap then 3
         else if d < DayFromMonth 5 leap then 4 else if d < DayFromMonth 6 leap then 5
         else if d < DayFromMonth 7 leap then 6 else if d < DayFromMonth 8 leap then 7
         else if d < DayFromMonth 9 leap then 8 else if d < DayFromMonth 10 leap then 9
         else if d < DayFromMonth 11 leap then 10 else 11)"

definition DateFromTime :: "int \<Rightarrow> int" where
  "DateFromTime t =
     DayWithinYear t - DayFromMonth (MonthFromTime t) (isLeapYear (YearFromTime t)) + 1"

definition maxTime :: int where
  "maxTime = 8640000000000000"

definition TimeClip :: "int \<Rightarrow> int option" where
  "TimeClip t = (if \<bar>t\<bar> > maxTime then None else Some t)"

text \<open>
  \<open>MakeDay\<close>: months beyond 0..11 carry into the year, and the day of the month is added
  to the first day of that month without any check, so the 30th of February is the 1st
  of March. As the engine of Node computes it, the result is \<open>NaN\<close> only for a year
  beyond a million or a month beyond ten million in size; the range of time values is
  enforced afterwards, by \<open>TimeClip\<close> on the final time value.
\<close>

definition MakeDay :: "int \<Rightarrow> int \<Rightarrow> int \<Rightarrow> int option" where
  "MakeDay year month date =
     (if \<bar>year\<bar> \<le> 1000000 \<and> \<bar>month\<bar> \<le> 10000000 then
        (let ym = year + month div 12;
             mn = month mod 12
         in Some (DayFromYear ym + DayFromMonth mn (isLeapYear ym) + date - 1))
      else None)"

definition MakeDate :: "int \<Rightarrow> int \<Rightarrow> int" where
  "MakeDate day time = day * msPerDay + time"

definition LocalTime :: "int \<Rightarrow> int \<Rightarrow> int" where
  "LocalTime tz t = t + tz"

definition UTC :: "int \<Rightarrow> int \<Rightarrow> int" where
  "UTC tz t = t - tz"

type_synonym Date = "int option"

text \<open>\<open>new Date(year, monthIndex, day)\<close>; a year from 0 to 99 stands for 1900 + year.\<close>

definition newDate :: "int \<Rightarrow> int \<Rightarrow> int \<Rightarrow> int \<Rightarrow> Date" where
  "newDate tz year monthIndex day =
     (let yr = (if 0 \<le> year \<and> year \<le> 99 then 1900 + year else year)
      in case MakeDay yr monthIndex day of
           None \<Rightarrow> None
         | Some d \<Rightarrow> TimeClip (UTC tz (MakeDate d 0)))"

definition getFullYear :: "int \<Rightarrow> Date \<Rightarrow> int option" where
  "getFullYear tz d = map_option (\<lambda>t. YearFromTime (LocalTime tz t)) d"

definition getMonth :: "int \<Rightarrow> Date \<Rightarrow> int option" where
  "getMonth tz d = map_option (\<lambda>t. MonthFromTime (LocalTime tz t)) d"

definition getDate :: "int \<Rightarrow> Date \<Rightarrow> int option" where
  "getDate tz d = map_option (\<lambda>t. DateFromTime (LocalTime tz t)) d"

section \<open>Rows, products and the per-row validation\<close>

text \<open>
  The parser hands every data row to the \<open>data\<close> handler as an object with the properties
  \<open>name\<close>, \<open>price\<close> and \<open>expiration\<close>; a property is \<open>undefined\<close> (\<open>None\<close>) when the
  line has fewer cells. The values are already trimmed (\<open>mapValues\<close>).
\<close>

record csv_row =
  row_name :: "string option"
  row_price :: "string option"
  row_expiration :: "string option"

record exchange_rates =
  date :: string
  rates :: "(string \<times> number) list"

record ProductDTO =
  name :: string
  price :: number
  expiration :: int
  exchangeRates :: exchange_rates

text \<open>An entry of the \<open>errors\<close> array: \<open>{ row, error, line }\<close>.\<close>

record validation_error =
  row :: csv_row
  error :: string
  line :: nat

text \<open>\<open>!x\<close> for a property that is a string or \<open>undefined\<close>.\<close>

fun falsy :: "string option \<Rightarrow> bool" where
  "falsy None = True"
| "falsy (Some s) = (s = [])"

datatype row_outcome = Skipped | Rejected string | Accepted ProductDTO

text \<open>
  The body of the \<open>data\<close> handler for one row, in the order of the source: a row that
  repeats the header is skipped without being counted; then the empty-field check, the
  price, the shape of the date, its three numbers and the year of the constructed date.
  After the empty-field check the three properties are non-empty strings (the last
  branch below is never reached), and no operation in the body can throw on them, so
  the handler's \<open>catch\<close> branch is never taken.
\<close>

definition checkRow :: "int \<Rightarrow> exchange_rates \<Rightarrow> csv_row \<Rightarrow> row_outcome" where
  "checkRow tz xr data =
     (if row_name data = Some ''name'' \<and> row_price data = Some ''price''
         \<and> row_expiration data = Some ''expiration'' then Skipped
      else if falsy (row_name data) \<or> falsy (row_price data) \<or> falsy (row_expiration data)
      then Rejected ''Missing required fields''
      else
        (case (row_name data, row_price data, row_expiration data) of
           (Some dname, Some dprice, Some dexpiration) \<Rightarrow>
             (let p = parseFloat (trim (replace_first (CHR '','')
                        (replace_first (CHR ''$'') dprice)))
              in if isNaN p then Rejected (''Invalid price format: '' @ dprice)
                 else
                   (case split (CHR ''/'') dexpiration of
                      [m, d, y] \<Rightarrow>
                        (case (parseInt m, parseInt d, parseInt y) of
                           (Some month, Some day, Some year) \<Rightarrow>
                             (let e = newDate tz year (month - 1) day
                              in case e of
                                   None \<Rightarrow> Rejected (''Invalid date: '' @ dexpiration)
                                 | Some t \<Rightarrow>
                                     if getFullYear tz e \<noteq> Some year
                                     then Rejected (''Invalid date: '' @ dexpiration)
                                     else Accepted \<lparr>name = trim dname, price = p,
                                                     expiration = t, exchangeRates = xr\<rparr>)
                         | _ \<Rightarrow> Rejected (''Invalid date numbers: '' @ dexpiration))
                    | _ \<Rightarrow>
                        Rejected (''Invalid date format. Expected MM/DD/YYYY: '' @ dexpiration)))
         | _ \<Rightarrow> Rejected ''Missing required fields''))"

text \<open>The variables the handler closes over.\<close>

record parse_state =
  results :: "ProductDTO list"
  errors :: "validation_error list"
  successCount :: nat
  lineCount :: nat

definition initial_state :: parse_state where
  "initial_state = \<lparr>results = [], errors = [], successCount = 0, lineCount = 0\<rparr>"

definition onData :: "int \<Rightarrow> exchange_rates \<Rightarrow> parse_state \<Rightarrow> csv_row \<Rightarrow> parse_state" where
  "onData tz xr st data =
     (let st1 = st\<lparr>lineCount := lineCount st + 1\<rparr>
      in case checkRow tz xr data of
           Skipped \<Rightarrow> st1
         | Rejected msg \<Rightarrow>
             st1\<lparr>errors := errors st1 @ [\<lparr>row = data, error = msg, line = lineCount st1\<rparr>]\<rparr>
         | Accepted product \<Rightarrow>
             st1\<lparr>results := results st1 @ [product], successCount := successCount st1 + 1\<rparr>)"

definition parseRows :: "int \<Rightarrow> exchange_rates \<Rightarrow> csv_row list \<Rightarrow> parse_state" where
  "parseRows tz xr rows = foldl (onData tz xr) initial_state rows"

subsection \<open>The rows of a file\<close>

text \<open>
  The rows come from the \<open>csv-parser\<close> package, called with separator \<open>;\<close>, the three
  headers given, \<open>skipLines: 1\<close> and a \<open>mapValues\<close> that trims. On a text without quote
  characters it cuts the text at line feeds (a carriage return before the line feed
  belongs to the line end, and a final line feed starts no further line), drops the
  first line, cuts each line at the separator and names the first three cells.
\<close>

definition stripCR :: "string \<Rightarrow> string" where
  "stripCR l = (if l \<noteq> [] \<and> last l = CHR 0x0D then butlast l else l)"

definition fileLines :: "string \<Rightarrow> string list" where
  "fileLines text =
     (let ls = split (CHR 0x0A) text
      in map stripCR (if last ls = [] then butlast ls else ls))"

definition lineCells :: "string \<Rightarrow> string list" where
  "lineCells l = (if l = [] then [] else map trim (split (CHR '';'') l))"

fun cell :: "string list \<Rightarrow> nat \<Rightarrow> string option" where
  "cell [] n = None"
| "cell (c # cs) 0 = Some c"
| "cell (c # cs) (Suc n) = cell cs n"

definition rowOfCells :: "string list \<Rightarrow> csv_row" where
  "rowOfCells cs = \<lparr>row_name = cell cs 0, row_price = cell cs 1, row_expiration = cell cs 2\<rparr>"

definition csvRows :: "string \<Rightarrow> csv_row list" where
  "csvRows text = map (rowOfCells \<circ> lineCells) (drop 1 (fileLines text))"

section \<open>The world around a run\<close>

text \<open>
  A thrown value is an \<open>Error\<close> with its message. A function that can throw returns
  \<open>js_error + 'a\<close>, with \<open>Inl\<close> for the thrown error.
\<close>

datatype js_error = Error string

fun message :: "js_error \<Rightarrow> string" where
  "message (Error m) = m"

datatype db_call = DeleteMany | InsertMany nat "ProductDTO list"

text \<open>
  What a run reads and changes: the cache entry \<open>exchange_rates\<close>, the products
  collection, the calls made on the collection and the counters of the persistence
  stage, both in the order they happen, and the staged files in the temporary
  directory.
\<close>

record world =
  cache :: "exchange_rates option"
  catalog :: "ProductDTO list"
  db_log :: "db_call list"
  counters :: "string list"
  files :: "string list"

text \<open>
  What the outside decides during a run: the time zone offset, the clock (as an ISO
  string and in milliseconds), the temporary directory, whether writing the staged file
  throws, the answer of the rate provider, whether the cache accepts a write, whether
  the stream breaks (an \<open>error\<close> event or the 300 second timeout), whether
  \<open>deleteMany\<close> throws, and for each \<open>insertMany\<close> call (by batch number) the documents
  written and the error thrown, if any. With \<open>ordered: false\<close> a call may write some
  documents and throw.
\<close>

record env =
  localTZA :: int
  now :: string
  now_ms :: string
  tmpdir :: string
  writeFile_error :: "js_error option"
  provider :: "js_error + (string \<times> number) list"
  cache_set_ok :: bool
  stream_fault :: "js_error option"
  deleteMany_error :: "js_error option"
  insertMany_result :: "nat \<Rightarrow> ProductDTO list \<Rightarrow> ProductDTO list \<times> js_error option"

section \<open>Currency enrichment\<close>

text \<open>
  \<open>RedisService.get\<close> and \<open>set\<close> catch their own errors: a failed read is a miss and a
  failed write leaves the cache as it is.
\<close>

definition getExchangeRates :: "env \<Rightarrow> world \<Rightarrow> world \<times> (js_error + exchange_rates)" where
  "getExchangeRates e w =
     (case cache w of
        Some cachedRates \<Rightarrow> (w, Inr cachedRates)
      | None \<Rightarrow>
          (case provider e of
             Inl err \<Rightarrow> (w, Inl (Error ''Failed to fetch exchange rates''))
           | Inr rs \<Rightarrow>
               (let ratesData = \<lparr>date = now e, rates = rs\<rparr>
                in (if cache_set_ok e then w\<lparr>cache := Some ratesData\<rparr> else w,
                    Inr ratesData))))"

definition selectedCurrencies :: "string list" where
  "selectedCurrencies = [''EUR'', ''GBP'', ''JPY'', ''CAD'', ''AUD'', ''BRL'']"

fun truthy :: "number \<Rightarrow> bool" where
  "truthy NaN = False"
| "truthy (Infinity _) = True"
| "truthy (Decimal m _) = (m \<noteq> 0)"

definition getSelectedCurrencies :: "(string \<times> number) list \<Rightarrow> (string \<times> number) list" where
  "getSelectedCurrencies rs =
     concat (map (\<lambda>currency.
        case map_of rs currency of
          Some v \<Rightarrow> if truthy v then [(currency, v)] else []
        | None \<Rightarrow> []) selectedCurrencies)"

section \<open>Batch persistence\<close>

definition batchSize :: nat where
  "batchSize = 1000"

definition slice :: "nat \<Rightarrow> nat \<Rightarrow> 'a list \<Rightarrow> 'a list" where
  "slice a b xs = take (b - a) (drop a xs)"

text \<open>
  The \<open>for\<close> loop over the batches. The \<open>try\<close> around each insert has a \<open>catch\<close> that
  counts and logs, so after either branch the loop goes on with the next batch.
\<close>

function batchLoop :: "env \<Rightarrow> nat \<Rightarrow> ProductDTO list \<Rightarrow> world \<Rightarrow> world" where
  "batchLoop e i products w =
     (if i < length products then
        (let batch = slice i (i + batchSize) products;
             batchNumber = i div batchSize + 1;
             w1 = w\<lparr>db_log := db_log w @ [InsertMany batchNumber batch]\<rparr>
         in case insertMany_result e batchNumber batch of
              (written, None) \<Rightarrow>
                batchLoop e (i + batchSize) products
                  (w1\<lparr>catalog := catalog w1 @ written,
                      counters := counters w1 @ [''database.batch.inserted'']\<rparr>)
            | (written, Some batchError) \<Rightarrow>
                batchLoop e (i + batchSize) products
                  (w1\<lparr>catalog := catalog w1 @ written,
                      counters := counters w1 @ [''database.batch.failed'']\<rparr>))
      else w)"
  by pat_completeness auto
termination
  by (relation "measure (\<lambda>(e, i, products, w). length products - i)")
     (auto simp: batchSize_def)

text \<open>
  \<open>processProductsInBatches\<close>: the collection is cleared first; an error of
  \<open>deleteMany\<close> is rethrown by the outer \<open>catch\<close>.
\<close>

definition processProductsInBatches ::
  "env \<Rightarrow> world \<Rightarrow> ProductDTO list \<Rightarrow> world \<times> (js_error + unit)" where
  "processProductsInBatches e w products =
     (let w0 = w\<lparr>db_log := db_log w @ [DeleteMany]\<rparr>
      in case deleteMany_error e of
           Some err \<Rightarrow> (w0, Inl err)
         | None \<Rightarrow>
             (batchLoop e 0 products
                (w0\<lparr>catalog := [], counters := counters w0 @ [''database.products.cleared'']\<rparr>),
              Inr ()))"

text \<open>
  The batches the loop forms, for stating what it does: \<open>batchOf products k\<close> is the
  slice the loop takes at \<open>i = k * batchSize\<close>, and \<open>batchCount n\<close> is the number of
  iterations for \<open>n\<close> products.
\<close>

definition batchOf :: "ProductDTO list \<Rightarrow> nat \<Rightarrow> ProductDTO list" where
  "batchOf products k = slice (k * batchSize) (k * batchSize + batchSize) products"

definition batchCount :: "nat \<Rightarrow> nat" where
  "batchCount n = (n + batchSize - 1) div batchSize"

text \<open>The counter the loop increments after an insert, by its outcome.\<close>

definition batchCounter :: "ProductDTO list \<times> js_error option \<Rightarrow> string" where
  "batchCounter res =
     (case snd res of None \<Rightarrow> ''database.batch.inserted'' | Some err \<Rightarrow> ''database.batch.failed'')"

section \<open>The pipeline\<close>

record processing_result =
  res_successCount :: nat
  res_errors :: "validation_error list"

text \<open>
  The promise body shared, line by line, by \<open>processCSVFileWithMetrics\<close> and
  \<open>processCSVFileFromBuffer\<close>: the rates are fetched before the stream is opened, every
  row goes through the \<open>data\<close> handler, and at \<open>end\<close> the products are persisted when
  there are any. A stream that breaks rejects the promise; the rows it delivered before
  have changed only the handler's own variables. (In the file variant this is an error
  of the parser stream or the timeout; a read error of the file itself has no listener
  and ends the process, which no value of a run describes.)
\<close>

definition processRows :: "env \<Rightarrow> world \<Rightarrow> csv_row list \<Rightarrow> world \<times> (js_error + processing_result)" where
  "processRows e w rows =
     (case getExchangeRates e w of
        (w1, Inl err) \<Rightarrow> (w1, Inl err)
      | (w1, Inr ratesData) \<Rightarrow>
          (let xr = \<lparr>date = date ratesData, rates = getSelectedCurrencies (rates ratesData)\<rparr>
           in case stream_fault e of
                Some err \<Rightarrow> (w1, Inl err)
              | None \<Rightarrow>
                  (let st = parseRows (localTZA e) xr rows;
                       res = \<lparr>res_successCount = successCount st, res_errors = errors st\<rparr>
                   in if length (results st) > 0 then
                        (case processProductsInBatches e w1 (results st) of
                           (w2, Inl err) \<Rightarrow> (w2, Inl err)
                         | (w2, Inr u) \<Rightarrow> (w2, Inr res))
                      else (w1, Inr res))))"

definition processCSVFileWithMetrics ::
  "env \<Rightarrow> world \<Rightarrow> string \<Rightarrow> world \<times> (js_error + processing_result)" where
  "processCSVFileWithMetrics e w fileText = processRows e w (csvRows fileText)"

definition processCSVFileFromBuffer ::
  "env \<Rightarrow> world \<Rightarrow> string \<Rightarrow> world \<times> (js_error + processing_result)" where
  "processCSVFileFromBuffer e w buffer = processRows e w (csvRows buffer)"

section \<open>The queue client\<close>

text \<open>
  \<open>RabbitMQService\<close> of \<open>rabbitmq.service.ts\<close>, the module the products service
  imports. The channel is the object the client publishes on: given the message it
  returns the flag of \<open>publish\<close> or throws; the property is \<open>undefined\<close> (\<open>None\<close>) when
  no channel was created. The connection promise is settled: \<open>None\<close> when it resolved,
  the error when it rejected.
\<close>

record csv_message =
  filePath :: string
  timestamp :: string

type_synonym channel = "csv_message \<Rightarrow> js_error + bool"

record RabbitMQService =
  isConnected :: bool
  channel :: "channel option"
  connectionPromise :: "js_error option"

definition ensureConnected :: "RabbitMQService \<Rightarrow> js_error + unit" where
  "ensureConnected svc =
     (case (if \<not> isConnected svc then connectionPromise svc else None) of
        Some err \<Rightarrow> Inl err
      | None \<Rightarrow>
          if \<not> isConnected svc then Inl (Error ''RabbitMQ not connected after waiting'')
          else Inr ())"

text \<open>
  \<open>sendToCsvQueue\<close>: the whole body is inside \<open>try\<close>, and the \<open>catch\<close> returns false.
  Calling \<open>publish\<close> on a channel that is \<open>undefined\<close> throws a \<open>TypeError\<close>.
\<close>

definition sendToCsvQueue :: "RabbitMQService \<Rightarrow> string \<Rightarrow> string \<Rightarrow> js_error + bool" where
  "sendToCsvQueue svc ts path =
     (let body =
        (case ensureConnected svc of
           Inl err \<Rightarrow> Inl err
         | Inr u \<Rightarrow>
             (case channel svc of
                None \<Rightarrow> Inl (Error ''Cannot read properties of undefined (reading 'publish')'')
              | Some ch \<Rightarrow>
                  (case ch \<lparr>filePath = path, timestamp = ts\<rparr> of
                     Inl err \<Rightarrow> Inl err
                   | Inr sent \<Rightarrow> if sent then Inr True else Inr False)))
      in case body of Inl err \<Rightarrow> Inr False | Inr b \<Rightarrow> Inr b)"

definition waitForConnection :: "RabbitMQService \<Rightarrow> js_error + bool" where
  "waitForConnection svc =
     (case ensureConnected svc of Inl err \<Rightarrow> Inr False | Inr u \<Rightarrow> Inr True)"


subsection \<open>Consuming\<close>

text \<open>
  A delivery as the consumer callback sees it, and the calls the callback makes on the
  channel: \<open>ack(message)\<close> and \<open>nack(message, allUpTo, requeue)\<close>. The argument
  \<open>run\<close> stands for \<open>JSON.parse\<close> of the content followed by the processor.
\<close>

record amqp_message =
  content :: string
  headers :: "(string \<times> int) list"
  redelivered :: bool

datatype channel_call = Ack amqp_message | Nack amqp_message bool bool

text \<open>The callback of \<open>consumeCsvQueue\<close> in \<open>rabbitmq.service.ts\<close>.\<close>

definition consumeCsvQueue ::
  "(string \<Rightarrow> js_error + unit) \<Rightarrow> amqp_message option \<Rightarrow> channel_call list" where
  "consumeCsvQueue run msg =
     (case msg of
        None \<Rightarrow> []
      | Some m \<Rightarrow>
          (case run (content m) of
             Inr u \<Rightarrow> [Ack m]
           | Inl err \<Rightarrow> [Nack m False False]))"

text \<open>
  The callback of \<open>consumeCsvQueue\<close> in the second \<open>RabbitMQService\<close>
  (\<open>rabbitmq.config.ts\<close>), which counts retries: \<open>headers?.['x-retry-count'] || 0\<close>
  plus one, compared with 3.
\<close>

definition retryCount :: "amqp_message \<Rightarrow> int" where
  "retryCount m = (case map_of (headers m) ''x-retry-count'' of None \<Rightarrow> 0 | Some c \<Rightarrow> c) + 1"

definition consumeCsvQueue_retry ::
  "(string \<Rightarrow> js_error + unit) \<Rightarrow> amqp_message option \<Rightarrow> channel_call list" where
  "consumeCsvQueue_retry run msg =
     (case msg of
        None \<Rightarrow> []
      | Some m \<Rightarrow>
          (case run (content m) of
             Inr u \<Rightarrow> [Ack m]
           | Inl err \<Rightarrow>
               if retryCount m \<le> 3 then [Nack m False True] else [Nack m False False]))"

text \<open>
  The broker's side of a delivery: a message that is negatively acknowledged with
  \<open>requeue\<close> goes back to the queue as it is, marked as redelivered; acknowledged or
  rejected without \<open>requeue\<close> it leaves the queue. \<open>deliveries cb n m\<close> is the message in
  the queue after \<open>n\<close> deliveries to the callback \<open>cb\<close>, if it is still there.
\<close>

fun requeued :: "channel_call list \<Rightarrow> amqp_message option" where
  "requeued [Nack m allUpTo True] = Some (m\<lparr>redelivered := True\<rparr>)"
| "requeued _ = None"

fun deliveries ::
  "(amqp_message option \<Rightarrow> channel_call list) \<Rightarrow> nat \<Rightarrow> amqp_message \<Rightarrow> amqp_message option" where
  "deliveries cb 0 m = Some m"
| "deliveries cb (Suc n) m =
     (case requeued (cb (Some m)) of None \<Rightarrow> None | Some m' \<Rightarrow> deliveries cb n m')"

section \<open>The fallback orchestrator\<close>

record upload_file =
  buffer :: "string option"
  originalname :: string

record upload_summary =
  processed :: nat
  summary_errors :: nat

text \<open>
  The path of the staged file, \<open>path.join(tmpdir, `uploaded_${Date.now()}_${originalname}`)\<close>,
  for an original name without directory parts (which \<open>path.join\<close> would normalise).
\<close>

definition tempFilePath :: "env \<Rightarrow> upload_file \<Rightarrow> string" where
  "tempFilePath e f = tmpdir e @ ''/uploaded_'' @ now_ms e @ ''_'' @ originalname f"

text \<open>
  \<open>processCSVFromUpload\<close>. The first two awaits are outside the \<open>try\<close>, so what they
  throw reaches the caller unchanged; inside the \<open>try\<close> every error is rethrown as
  \<open>Failed to process file\<close>. The temporary directory exists, and removing the staged
  file that was just written succeeds.
\<close>

definition processCSVFromUpload ::
  "env \<Rightarrow> RabbitMQService \<Rightarrow> world \<Rightarrow> upload_file option \<Rightarrow> world \<times> (js_error + upload_summary)" where
  "processCSVFromUpload e svc w file =
     (case (case file of None \<Rightarrow> None | Some f \<Rightarrow> map_option (Pair f) (buffer f)) of
        None \<Rightarrow> (w, Inl (Error ''No file data provided''))
      | Some (f, buf) \<Rightarrow>
          (case waitForConnection svc of
             Inl err \<Rightarrow> (w, Inl err)
           | Inr False \<Rightarrow>
               (case processCSVFileFromBuffer e w buf of
                  (w1, Inl err) \<Rightarrow> (w1, Inl err)
                | (w1, Inr result) \<Rightarrow>
                    (w1, Inr \<lparr>processed = res_successCount result,
                              summary_errors = length (res_errors result)\<rparr>))
           | Inr True \<Rightarrow>
               (case writeFile_error e of
                  Some err \<Rightarrow> (w, Inl (Error (''Failed to process file: '' @ message err)))
                | None \<Rightarrow>
                    (let w1 = w\<lparr>files := tempFilePath e f # files w\<rparr>
                     in case sendToCsvQueue svc (now e) (tempFilePath e f) of
                          Inl err \<Rightarrow> (w1, Inl (Error (''Failed to process file: '' @ message err)))
                        | Inr True \<Rightarrow> (w1, Inr \<lparr>processed = 0, summary_errors = 0\<rparr>)
                        | Inr False \<Rightarrow>
                            (case processCSVFileFromBuffer e w1 buf of
                               (w2, Inl err) \<Rightarrow>
                                 (w2, Inl (Error (''Failed to process file: '' @ message err)))
                             | (w2, Inr result) \<Rightarrow>
                                 (w2\<lparr>files := removeAll (tempFilePath e f) (files w2)\<rparr>,
                                  Inr \<lparr>processed = res_successCount result,
                                        summary_errors = length (res_errors result)\<rparr>))))))"

section \<open>Notions for the statements, and sample inputs\<close>

text \<open>A row whose three cells are all present.\<close>

abbreviation Row :: "string \<Rightarrow> string \<Rightarrow> string \<Rightarrow> csv_row" where
  "Row n p x \<equiv> \<lparr>row_name = Some n, row_price = Some p, row_expiration = Some x\<rparr>"



text \<open>The guard at the top of the \<open>data\<close> handler: the row repeats the header.\<close>

definition repeatsHeader :: "csv_row \<Rightarrow> bool" where
  "repeatsHeader data \<longleftrightarrow>
     row_name data = Some ''name'' \<and> row_price data = Some ''price''
     \<and> row_expiration data = Some ''expiration''"

text \<open>
  A server in UTC with a reachable rate provider, a cache that accepts writes and a
  database that writes every batch; and a world with an empty cache and one product in
  the catalog.
\<close>

definition sample_env :: env where
  "sample_env =
     \<lparr>localTZA = 0, now = ''2024-01-01T00:00:00.000Z'', now_ms = ''1704067200000'',
      tmpdir = ''/tmp'', writeFile_error = None,
      provider = Inr [(''EUR'', Decimal 9 (- 1)), (''USD'', Decimal 1 0)],
      cache_set_ok = True, stream_fault = None, deleteMany_error = None,
      insertMany_result = (\<lambda>n batch. (batch, None))\<rparr>"

definition old_product :: ProductDTO where
  "old_product =
     \<lparr>name = ''Old'', price = Decimal 5 0, expiration = 0,
      exchangeRates = \<lparr>date = ''2023-01-01'', rates = []\<rparr>\<rparr>"

definition sample_world :: world where
  "sample_world = \<lparr>cache = None, catalog = [old_product], db_log = [], counters = [], files = []\<rparr>"

text \<open>The file of the scenario: a header and three data rows, separated by line feeds.\<close>

definition scenario_input :: string where
  "scenario_input =
     ''name;price;expiration'' @ [CHR 0x0A] @ ''Apple;$10.00;12/31/2024'' @ [CHR 0x0A]
     @ '';5.00;01/01/2025'' @ [CHR 0x0A] @ ''Pear;abc;02/02/2025''"

text \<open>A file whose only data row repeats the header.\<close>

definition header_twice :: string where
  "header_twice = ''name;price;expiration'' @ [CHR 0x0A] @ ''name;price;expiration''"


text \<open>A cached snapshot, and the sample world with it in the cache.\<close>

definition sample_snapshot :: exchange_rates where
  "sample_snapshot = \<lparr>date = ''2023-12-31T12:00:00.000Z'', rates = [(''EUR'', Decimal 92 (- 2))]\<rparr>"

definition cached_world :: world where
  "cached_world = sample_world\<lparr>cache := Some sample_snapshot\<rparr>"

text \<open>
  Environments in which something fails: the rate provider, \<open>deleteMany\<close>, and the
  first \<open>insertMany\<close> (which writes nothing and throws).
\<close>

definition provider_down :: env where
  "provider_down = sample_env\<lparr>provider := Inl (Error ''connect ECONNREFUSED'')\<rparr>"


definition first_batch_fails :: env where
  "first_batch_fails =
     sample_env\<lparr>insertMany_result :=
       (\<lambda>n batch. if n = 1 then ([], Some (Error ''write failed'')) else (batch, None))\<rparr>"

text \<open>A list of 1001 products: a full first batch and a second batch of one.\<close>

definition apple_product :: ProductDTO where
  "apple_product =
     \<lparr>name = ''Apple'', price = Decimal 1000 (- 2), expiration = 1735603200000,
      exchangeRates = sample_snapshot\<rparr>"


definition two_batches :: "ProductDTO list" where
  "two_batches = replicate 1000 old_product @ [apple_product]"

text \<open>
  A message as \<open>sendToCsvQueue\<close> publishes it (no header is set), a client that never
  connected, and a client whose channel reports a full buffer.
\<close>

definition queued_message :: amqp_message where
  "queued_message =
     \<lparr>content = ''{filePath:/tmp/uploaded_1704067200000_products.csv}'', headers = [],
      redelivered = False\<rparr>"


definition buffer_full :: RabbitMQService where
  "buffer_full =
     \<lparr>isConnected = True, channel = Some (\<lambda>m. Inr False), connectionPromise = None\<rparr>"

definition sample_upload :: upload_file where
  "sample_upload = \<lparr>buffer = Some scenario_input, originalname = ''products.csv''\<rparr>"

section \<open>Properties of the validation\<close>

subsection \<open>The year of a day\<close>

lemma div_bounds:
  fixes a k :: int
  assumes "0 < k"
  shows "k * (a div k) \<le> a" and "a - (k - 1) \<le> k * (a div k)"
proof -
  have "a = k * (a div k) + a mod k" by simp
  moreover have "0 \<le> a mod k" "a mod k < k" using assms by simp_all
  ultimately show "k * (a div k) \<le> a" and "a - (k - 1) \<le> k * (a div k)"
    by linarith+
qed

lemma DayFromYear_bounds:
  "146097 * (y - 1970) - 506 \<le> 400 * DayFromYear y"
  "400 * DayFromYear y \<le> 146097 * (y - 1970) + 589"
proof -
  note b4 = div_bounds[of 4 "y - 1969"]
  note b100 = div_bounds[of 100 "y - 1901"]
  note b400 = div_bounds[of 400 "y - 1601"]
  show "146097 * (y - 1970) - 506 \<le> 400 * DayFromYear y"
    unfolding DayFromYear_def using b4 b100 b400 by simp
  show "400 * DayFromYear y \<le> 146097 * (y - 1970) + 589"
    unfolding DayFromYear_def using b4 b100 b400 by simp
qed

lemma YearFromDay_correct:
  "DayFromYear (YearFromDay d) \<le> d \<and> d < DayFromYear (YearFromDay d + 1)"
proof -
  define y where "y = 1970 + (d * 400) div 146097"
  have lo: "146097 * (y - 1970) \<le> 400 * d" and hi: "400 * d < 146097 * (y - 1970) + 146097"
    unfolding y_def using div_bounds[of 146097 "d * 400"] by simp_all
  have a: "DayFromYear (y - 1) \<le> d"
    using DayFromYear_bounds(2)[of "y - 1"] lo by simp
  have b: "d < DayFromYear (y + 2)"
    using DayFromYear_bounds(1)[of "y + 2"] hi by simp
  have c: "y + 1 + 1 = y + 2" "y - 1 + 1 = y" by simp_all
  show ?thesis
    using a b
    by (simp add: YearFromDay_def Let_def y_def[symmetric] c)
qed

lemma div_step:
  fixes a k :: int
  assumes "0 < k"
  shows "a div k \<le> (a + 1) div k" and "(a + 1) div k \<le> a div k + 1"
proof -
  show "a div k \<le> (a + 1) div k"
    using assms by (simp add: zdiv_mono1)
  have "k * ((a + 1) div k) \<le> a + 1" and "a - (k - 1) \<le> k * (a div k)"
    using div_bounds[OF assms] by simp_all
  then have "k * ((a + 1) div k) < k * (a div k + 2)"
    using assms by (simp add: algebra_simps)
  then have "(a + 1) div k < a div k + 2"
    using assms by (simp only: mult_less_cancel_left_pos)
  then show "(a + 1) div k \<le> a div k + 1" by simp
qed

lemma DayFromYear_step: "DayFromYear y < DayFromYear (y + 1)"
proof -
  have aux: "365 * (y - 1970) + a - b + c < 365 * (y + 1 - 1970) + a' - b' + c'"
    if "a \<le> a'" "b' \<le> b + 1" "c \<le> c'" for a a' b b' c c' :: int
    using that by simp
  have "(y - 1969) div 4 \<le> (y + 1 - 1969) div 4"
    using div_step(1)[of 4 "y - 1969"] by (simp add: algebra_simps)
  moreover have "(y + 1 - 1901) div 100 \<le> (y - 1901) div 100 + 1"
    using div_step(2)[of 100 "y - 1901"] by (simp add: algebra_simps)
  moreover have "(y - 1601) div 400 \<le> (y + 1 - 1601) div 400"
    using div_step(1)[of 400 "y - 1601"] by (simp add: algebra_simps)
  ultimately show ?thesis
    unfolding DayFromYear_def by (rule aux)
qed

lemma DayFromYear_mono_nat: "DayFromYear y \<le> DayFromYear (y + int n)"
proof (induction n)
  case 0
  show ?case by simp
next
  case (Suc n)
  have "DayFromYear (y + int n) < DayFromYear (y + int n + 1)"
    by (rule DayFromYear_step)
  moreover have e: "y + int (Suc n) = y + int n + 1"
    by simp
  ultimately show ?case
    unfolding e using Suc by linarith
qed

lemma DayFromYear_mono: "y \<le> y' \<Longrightarrow> DayFromYear y \<le> DayFromYear y'"
  using DayFromYear_mono_nat[of y "nat (y' - y)"] by simp

text \<open>\<open>YearFromDay d\<close> is the year the day \<open>d\<close> lies in, and the only one.\<close>

lemma YearFromDay_unique:
  assumes "DayFromYear y \<le> d" and "d < DayFromYear (y + 1)"
  shows "YearFromDay d = y"
proof (rule ccontr)
  assume ne: "YearFromDay d \<noteq> y"
  note c = YearFromDay_correct[of d]
  show False
  proof (cases "YearFromDay d < y")
    case True
    then have "DayFromYear (YearFromDay d + 1) \<le> DayFromYear y"
      by (intro DayFromYear_mono) simp
    with c assms show False by simp
  next
    case False
    with ne have "y + 1 \<le> YearFromDay d" by simp
    then have "DayFromYear (y + 1) \<le> DayFromYear (YearFromDay d)"
      by (rule DayFromYear_mono)
    with c assms show False by simp
  qed
qed

subsection \<open>Dates in any time zone\<close>

lemma newDate_offset:
  assumes "newDate 0 y m d = Some t" and "\<bar>t - z\<bar> \<le> maxTime"
  shows "newDate z y m d = Some (t - z)"
  using assms
  by (auto simp: newDate_def TimeClip_def UTC_def Let_def split: option.splits if_splits)

lemma getFullYear_offset: "getFullYear z (Some (t - z)) = Some (YearFromTime t)"
  by (simp add: getFullYear_def LocalTime_def)

lemma getMonth_offset: "getMonth z (Some (t - z)) = Some (MonthFromTime t)"
  by (simp add: getMonth_def LocalTime_def)

lemma getDate_offset: "getDate z (Some (t - z)) = Some (DateFromTime t)"
  by (simp add: getDate_def LocalTime_def)

lemma offset_in_range:
  "\<bar>z\<bar> \<le> msPerDay \<Longrightarrow> \<bar>t\<bar> \<le> 4000000000000 \<Longrightarrow> \<bar>t - z\<bar> \<le> maxTime"
  by (simp add: msPerDay_def maxTime_def)

subsection \<open>The outcome of a row from the values of its parts\<close>

lemma checkRow_Accepted:
  assumes cells: "row_name data = Some n" "row_price data = Some p" "row_expiration data = Some x"
    and nonempty: "n \<noteq> []" "p \<noteq> []" "x \<noteq> []"
    and nohdr: "n \<noteq> ''name'' \<or> p \<noteq> ''price'' \<or> x \<noteq> ''expiration''"
    and pr: "parseFloat (trim (replace_first (CHR '','') (replace_first (CHR ''$'') p))) = v"
      "\<not> isNaN v"
    and parts: "split (CHR ''/'') x = [ms, ds, ys]"
      "parseInt ms = Some month" "parseInt ds = Some day" "parseInt ys = Some year"
    and dt: "newDate 0 year (month - 1) day = Some t" "YearFromTime t = year"
      "\<bar>t - z\<bar> \<le> maxTime"
    and nm: "trim n = n'"
  shows "checkRow z xr data =
           Accepted \<lparr>name = n', price = v, expiration = t - z, exchangeRates = xr\<rparr>"
proof -
  have nd: "newDate z year (month - 1) day = Some (t - z)"
    by (rule newDate_offset[OF dt(1) dt(3)])
  show ?thesis
    using nohdr nonempty pr(2)
    by (auto simp: checkRow_def cells pr(1) parts nd getFullYear_offset dt(2) nm Let_def)
qed

lemma checkRow_bad_price:
  assumes cells: "row_name data = Some n" "row_price data = Some p" "row_expiration data = Some x"
    and nonempty: "n \<noteq> []" "p \<noteq> []" "x \<noteq> []"
    and nohdr: "n \<noteq> ''name'' \<or> p \<noteq> ''price'' \<or> x \<noteq> ''expiration''"
    and pr: "parseFloat (trim (replace_first (CHR '','') (replace_first (CHR ''$'') p))) = NaN"
  shows "checkRow z xr data = Rejected (''Invalid price format: '' @ p)"
  using nohdr nonempty
  by (auto simp: checkRow_def cells pr Let_def)

lemma checkRow_empty_field:
  assumes "falsy (row_name data) \<or> falsy (row_price data) \<or> falsy (row_expiration data)"
  shows "checkRow z xr data = Rejected ''Missing required fields''"
  using assms by (auto simp: checkRow_def)

lemma checkRow_Skipped: "checkRow z xr data = Skipped \<longleftrightarrow> repeatsHeader data"
  by (auto simp: checkRow_def repeatsHeader_def Let_def
           split: list.splits option.splits if_splits)

subsection \<open>Impossible dates\<close>

lemma row_feb30_2024:
  assumes "\<bar>z\<bar> \<le> msPerDay"
  shows "checkRow z xr (Row ''Widget'' ''1.00'' ''02/30/2024'') =
           Accepted \<lparr>name = ''Widget'', price = Decimal 100 (- 2),
                     expiration = 1709251200000 - z, exchangeRates = xr\<rparr>"
proof (rule checkRow_Accepted[where ms = "''02''" and ds = "''30''" and ys = "''2024''"
        and month = 2 and day = 30 and year = 2024])
  show "\<bar>1709251200000 - z\<bar> \<le> maxTime"
    using assms by (simp add: offset_in_range)
qed (simp | code_simp)+

lemma row_feb29_2023:
  assumes "\<bar>z\<bar> \<le> msPerDay"
  shows "checkRow z xr (Row ''Widget'' ''1.00'' ''02/29/2023'') =
           Accepted \<lparr>name = ''Widget'', price = Decimal 100 (- 2),
                     expiration = 1677628800000 - z, exchangeRates = xr\<rparr>"
proof (rule checkRow_Accepted[where ms = "''02''" and ds = "''29''" and ys = "''2023''"
        and month = 2 and day = 29 and year = 2023])
  show "\<bar>1677628800000 - z\<bar> \<le> maxTime"
    using assms by (simp add: offset_in_range)
qed (simp | code_simp)+

lemma row_feb29_2024:
  assumes "\<bar>z\<bar> \<le> msPerDay"
  shows "checkRow z xr (Row ''Widget'' ''1.00'' ''02/29/2024'') =
           Accepted \<lparr>name = ''Widget'', price = Decimal 100 (- 2),
                     expiration = 1709164800000 - z, exchangeRates = xr\<rparr>"
proof (rule checkRow_Accepted[where ms = "''02''" and ds = "''29''" and ys = "''2024''"
        and month = 2 and day = 29 and year = 2024])
  show "\<bar>1709164800000 - z\<bar> \<le> maxTime"
    using assms by (simp add: offset_in_range)
qed (simp | code_simp)+

lemma first_of_march:
  "MonthFromTime 1709251200000 = 2" "DateFromTime 1709251200000 = 1"
  "MonthFromTime 1677628800000 = 2" "DateFromTime 1677628800000 = 1"
  "MonthFromTime 1709164800000 = 1" "DateFromTime 1709164800000 = 29"
  by code_simp+

text \<open>
  C1. The year of the constructed date is the only thing the handler compares. A day
  beyond the end of its month is carried into the next month by \<open>new Date\<close>, and as long
  as the year stays the same the row is accepted: the cells \<open>02/30/2024\<close> and
  \<open>02/29/2023\<close> are both accepted, with the 1st of March (month index 2, day 1) as their
  expiration, next to the valid \<open>02/29/2024\<close>.
\<close>

theorem impossible_dates_accepted:
  assumes "\<bar>z\<bar> \<le> msPerDay"
  shows "checkRow z xr (Row ''Widget'' ''1.00'' ''02/30/2024'') =
           Accepted \<lparr>name = ''Widget'', price = Decimal 100 (- 2),
                     expiration = 1709251200000 - z, exchangeRates = xr\<rparr>
       \<and> getMonth z (Some (1709251200000 - z)) = Some 2
       \<and> getDate z (Some (1709251200000 - z)) = Some 1
       \<and> checkRow z xr (Row ''Widget'' ''1.00'' ''02/29/2023'') =
           Accepted \<lparr>name = ''Widget'', price = Decimal 100 (- 2),
                     expiration = 1677628800000 - z, exchangeRates = xr\<rparr>
       \<and> getMonth z (Some (1677628800000 - z)) = Some 2
       \<and> getDate z (Some (1677628800000 - z)) = Some 1
       \<and> checkRow z xr (Row ''Widget'' ''1.00'' ''02/29/2024'') =
           Accepted \<lparr>name = ''Widget'', price = Decimal 100 (- 2),
                     expiration = 1709164800000 - z, exchangeRates = xr\<rparr>"
  using assms
  by (simp only: row_feb30_2024 row_feb29_2023 row_feb29_2024 getMonth_offset getDate_offset
        first_of_march simp_thms)

theorem impossible_dates_accepted_witness:
  "\<bar>0::int\<bar> \<le> msPerDay
   \<and> checkRow 0 (exchangeRates old_product) (Row ''Widget'' ''1.00'' ''02/30/2024'') =
       Accepted \<lparr>name = ''Widget'', price = Decimal 100 (- 2),
                 expiration = 1709251200000, exchangeRates = exchangeRates old_product\<rparr>
   \<and> checkRow 0 (exchangeRates old_product) (Row ''Widget'' ''1.00'' ''02/29/2023'') =
       Accepted \<lparr>name = ''Widget'', price = Decimal 100 (- 2),
                 expiration = 1677628800000, exchangeRates = exchangeRates old_product\<rparr>"
proof -
  have h: "\<bar>0::int\<bar> \<le> msPerDay" by (simp add: msPerDay_def)
  show ?thesis
    using h impossible_dates_accepted[OF h, of "exchangeRates old_product"] by simp
qed

subsection \<open>The scenario file\<close>

lemma scenario_rows:
  "csvRows scenario_input =
     [Row ''Apple'' ''$10.00'' ''12/31/2024'', Row [] ''5.00'' ''01/01/2025'',
      Row ''Pear'' ''abc'' ''02/02/2025'']"
  by code_simp

lemma row_apple:
  assumes "\<bar>z\<bar> \<le> msPerDay"
  shows "checkRow z xr (Row ''Apple'' ''$10.00'' ''12/31/2024'') =
           Accepted \<lparr>name = ''Apple'', price = Decimal 1000 (- 2),
                     expiration = 1735603200000 - z, exchangeRates = xr\<rparr>"
proof (rule checkRow_Accepted[where ms = "''12''" and ds = "''31''" and ys = "''2024''"
        and month = 12 and day = 31 and year = 2024])
  show "\<bar>1735603200000 - z\<bar> \<le> maxTime"
    using assms by (simp add: offset_in_range)
qed (simp | code_simp)+

lemma row_no_name:
  "checkRow z xr (Row [] ''5.00'' ''01/01/2025'') = Rejected ''Missing required fields''"
  by (rule checkRow_empty_field) simp

lemma row_pear:
  "checkRow z xr (Row ''Pear'' ''abc'' ''02/02/2025'') = Rejected ''Invalid price format: abc''"
proof -
  have "checkRow z xr (Row ''Pear'' ''abc'' ''02/02/2025'') = Rejected (''Invalid price format: '' @ ''abc'')"
    by (rule checkRow_bad_price[where n = "''Pear''" and x = "''02/02/2025''"]) (simp | code_simp)+
  then show ?thesis by simp
qed

lemma scenario_parse:
  assumes "\<bar>z\<bar> \<le> msPerDay"
  shows "parseRows z xr (csvRows scenario_input) =
     \<lparr>results = [\<lparr>name = ''Apple'', price = Decimal 1000 (- 2),
                   expiration = 1735603200000 - z, exchangeRates = xr\<rparr>],
      errors = [\<lparr>row = Row [] ''5.00'' ''01/01/2025'', error = ''Missing required fields'', line = 2\<rparr>,
                \<lparr>row = Row ''Pear'' ''abc'' ''02/02/2025'', error = ''Invalid price format: abc'', line = 3\<rparr>],
      successCount = 1, lineCount = 3\<rparr>"
  by (simp add: scenario_rows parseRows_def onData_def initial_state_def
        row_apple[OF assms] row_no_name row_pear)

lemma rates_available:
  assumes "cache w = Some c \<or> provider e = Inr rs"
  shows "\<exists>w1 rd. getExchangeRates e w = (w1, Inr rd) \<and> catalog w1 = catalog w \<and> db_log w1 = db_log w"
  using assms by (auto simp: getExchangeRates_def Let_def split: option.splits sum.splits)

text \<open>
  C8. On the scenario file the pipeline counts one success and two errors: the second
  data row is recorded for its empty name and the third for its price \<open>abc\<close>. This holds
  in every time zone, whenever the rates can be obtained, the stream does not break and
  \<open>deleteMany\<close> does not throw.
\<close>

theorem scenario_counts:
  assumes "\<bar>localTZA e\<bar> \<le> msPerDay" and "cache w = Some c \<or> provider e = Inr rs"
    and "stream_fault e = None" and "deleteMany_error e = None"
  shows "\<exists>r. snd (processCSVFileWithMetrics e w scenario_input) = Inr r
             \<and> res_successCount r = 1 \<and> length (res_errors r) = 2
             \<and> map (\<lambda>v. (line v, row v, error v)) (res_errors r) =
                 [(2, Row [] ''5.00'' ''01/01/2025'', ''Missing required fields''),
                  (3, Row ''Pear'' ''abc'' ''02/02/2025'', ''Invalid price format: abc'')]"
proof -
  obtain w1 rd where g: "getExchangeRates e w = (w1, Inr rd)"
    using rates_available[OF assms(2)] by blast
  show ?thesis
    by (simp add: processCSVFileWithMetrics_def processRows_def g assms(3,4)
          scenario_parse[OF assms(1)] processProductsInBatches_def Let_def)
qed

theorem scenario_counts_witness:
  "\<bar>localTZA sample_env\<bar> \<le> msPerDay
   \<and> provider sample_env = Inr [(''EUR'', Decimal 9 (- 1)), (''USD'', Decimal 1 0)]
   \<and> stream_fault sample_env = None \<and> deleteMany_error sample_env = None
   \<and> (\<exists>r. snd (processCSVFileWithMetrics sample_env sample_world scenario_input) = Inr r
             \<and> res_successCount r = 1 \<and> length (res_errors r) = 2)"
proof -
  have h1: "\<bar>localTZA sample_env\<bar> \<le> msPerDay"
    by (simp add: sample_env_def msPerDay_def)
  have p: "provider sample_env = Inr [(''EUR'', Decimal 9 (- 1)), (''USD'', Decimal 1 0)]"
    by (simp add: sample_env_def)
  have h2: "cache sample_world = Some (exchangeRates old_product)
            \<or> provider sample_env = Inr [(''EUR'', Decimal 9 (- 1)), (''USD'', Decimal 1 0)]"
    using p by simp
  have h3: "stream_fault sample_env = None" by (simp add: sample_env_def)
  have h4: "deleteMany_error sample_env = None" by (simp add: sample_env_def)
  from scenario_counts[OF h1 h2 h3 h4]
  obtain r where "snd (processCSVFileWithMetrics sample_env sample_world scenario_input) = Inr r"
    "res_successCount r = 1" "length (res_errors r) = 2"
    by blast
  with h1 p h3 h4 show ?thesis by blast
qed

lemma scenario_result:
  assumes "\<bar>localTZA e\<bar> \<le> msPerDay" and "cache w = Some c \<or> provider e = Inr rs"
    and "stream_fault e = None" and "deleteMany_error e = None"
  shows "snd (processCSVFileWithMetrics e w scenario_input) =
           Inr \<lparr>res_successCount = 1,
                res_errors =
                  [\<lparr>row = Row [] ''5.00'' ''01/01/2025'', error = ''Missing required fields'',
                    line = 2\<rparr>,
                   \<lparr>row = Row ''Pear'' ''abc'' ''02/02/2025'',
                    error = ''Invalid price format: abc'', line = 3\<rparr>]\<rparr>"
proof -
  obtain w1 rd where g: "getExchangeRates e w = (w1, Inr rd)"
    using rates_available[OF assms(2)] by blast
  show ?thesis
    by (simp add: processCSVFileWithMetrics_def processRows_def g assms(3,4)
          scenario_parse[OF assms(1)] processProductsInBatches_def Let_def)
qed

lemma sample_env_facts:
  "\<bar>localTZA sample_env\<bar> \<le> msPerDay"
  "provider sample_env = Inr [(''EUR'', Decimal 9 (- 1)), (''USD'', Decimal 1 0)]"
  "stream_fault sample_env = None" "deleteMany_error sample_env = None"
  "cache_set_ok sample_env" "writeFile_error sample_env = None"
  by (simp_all add: sample_env_def msPerDay_def)

lemma scenario_sample_result:
  "snd (processCSVFileWithMetrics sample_env sample_world scenario_input) =
     Inr \<lparr>res_successCount = 1,
          res_errors =
            [\<lparr>row = Row [] ''5.00'' ''01/01/2025'', error = ''Missing required fields'',
              line = 2\<rparr>,
             \<lparr>row = Row ''Pear'' ''abc'' ''02/02/2025'',
              error = ''Invalid price format: abc'', line = 3\<rparr>]\<rparr>"
  by (rule scenario_result[where c = "exchangeRates old_product"
        and rs = "[(''EUR'', Decimal 9 (- 1)), (''USD'', Decimal 1 0)]"])
     (simp_all add: sample_env_facts)

subsection \<open>Prices\<close>

lemma price_examples:
  "parseFloat (trim (replace_first (CHR '','') (replace_first (CHR ''$'') ''$1,234.56''))) =
     Decimal 123456 (- 2)"
  "parseFloat (trim (replace_first (CHR '','') (replace_first (CHR ''$'') ''abc''))) = NaN"
  "parseFloat (trim (replace_first (CHR '','') (replace_first (CHR ''$'') ''$1,234,567.89''))) =
     Decimal 1234 0"
  by code_simp+

lemma price_values:
  "numberValue (Decimal 123456 (- 2)) = Some (123456 / 100)"
  "numberValue (Decimal 1234 0) = Some 1234"
  by (simp_all add: pow10_def)

lemma row_two_separators:
  assumes "\<bar>z\<bar> \<le> msPerDay"
  shows "checkRow z xr (Row ''Widget'' ''$1,234,567.89'' ''12/31/2024'') =
           Accepted \<lparr>name = ''Widget'', price = Decimal 1234 0,
                     expiration = 1735603200000 - z, exchangeRates = xr\<rparr>"
proof (rule checkRow_Accepted[where ms = "''12''" and ds = "''31''" and ys = "''2024''"
        and month = 12 and day = 31 and year = 2024])
  show "\<bar>1735603200000 - z\<bar> \<le> maxTime"
    using assms by (simp add: offset_in_range)
qed (simp | code_simp)+

text \<open>
  C7. \<open>replace(',', '')\<close> removes the first comma only. The cell \<open>$1,234.56\<close> parses to
  1234.56 and \<open>abc\<close> is rejected, but in \<open>$1,234,567.89\<close> the second separator stays,
  \<open>parseFloat\<close> stops in front of it, and the row is accepted with the price 1234.
\<close>

theorem second_separator_cuts_price:
  assumes "\<bar>z\<bar> \<le> msPerDay"
  shows "checkRow z xr (Row ''Widget'' ''$1,234,567.89'' ''12/31/2024'') =
           Accepted \<lparr>name = ''Widget'', price = Decimal 1234 0,
                     expiration = 1735603200000 - z, exchangeRates = xr\<rparr>
       \<and> numberValue (Decimal 1234 0) = Some 1234
       \<and> numberValue (parseFloat (trim (replace_first (CHR '','')
             (replace_first (CHR ''$'') ''$1,234.56'')))) = Some (123456 / 100)
       \<and> checkRow z xr (Row ''Pear'' ''abc'' ''02/02/2025'') =
           Rejected ''Invalid price format: abc''"
  using assms
  by (simp only: row_two_separators price_examples price_values row_pear simp_thms)

theorem second_separator_cuts_price_witness:
  "\<bar>0::int\<bar> \<le> msPerDay
   \<and> checkRow 0 (exchangeRates old_product) (Row ''Widget'' ''$1,234,567.89'' ''12/31/2024'') =
       Accepted \<lparr>name = ''Widget'', price = Decimal 1234 0,
                 expiration = 1735603200000, exchangeRates = exchangeRates old_product\<rparr>"
proof -
  have h: "\<bar>0::int\<bar> \<le> msPerDay" by (simp add: msPerDay_def)
  show ?thesis
    using h second_separator_cuts_price[OF h, of "exchangeRates old_product"] by simp
qed

subsection \<open>Every row is counted once, except a repeated header\<close>

lemma onData_counts:
  "successCount (onData z xr st d) + length (errors (onData z xr st d))
     + (if repeatsHeader d then 1 else 0)
   = successCount st + length (errors st) + 1"
  using checkRow_Skipped[of z xr d]
  by (cases "checkRow z xr d") (simp_all add: onData_def Let_def)


lemma onData_lineCount: "lineCount (onData z xr st d) = lineCount st + 1"
  by (cases "checkRow z xr d") (simp_all add: onData_def Let_def)

lemma foldl_onData_counts:
  "successCount (foldl (onData z xr) st rows) + length (errors (foldl (onData z xr) st rows))
     + length (filter repeatsHeader rows)
   = successCount st + length (errors st) + length rows"
proof (induction rows arbitrary: st)
  case Nil
  show ?case by simp
next
  case (Cons d rows)
  from Cons.IH[of "onData z xr st d"] onData_counts[of z xr st d]
  show ?case by (simp split: if_splits)
qed


lemma foldl_onData_lineCount:
  "lineCount (foldl (onData z xr) st rows) = lineCount st + length rows"
  by (induction rows arbitrary: st) (simp_all add: onData_lineCount)

lemma parseRows_counts:
  "successCount (parseRows z xr rows) + length (errors (parseRows z xr rows))
     + length (filter repeatsHeader rows) = length rows"
  using foldl_onData_counts[of z xr initial_state rows]
  by (simp add: parseRows_def initial_state_def)


text \<open>What a run that returns a result returns: the counts of the handler.\<close>

lemma processRows_result:
  assumes "snd (processRows e w rows) = Inr r"
  shows "\<exists>w1 rd. getExchangeRates e w = (w1, Inr rd)
           \<and> r = \<lparr>res_successCount =
                    successCount (parseRows (localTZA e)
                      \<lparr>date = date rd, rates = getSelectedCurrencies (rates rd)\<rparr> rows),
                  res_errors =
                    errors (parseRows (localTZA e)
                      \<lparr>date = date rd, rates = getSelectedCurrencies (rates rd)\<rparr> rows)\<rparr>"
  using assms
  by (auto simp: processRows_def Let_def split: prod.splits sum.splits option.splits if_splits)

lemma header_twice_result:
  "snd (processCSVFileWithMetrics sample_env sample_world header_twice) =
     Inr \<lparr>res_successCount = 0, res_errors = []\<rparr>"
proof -
  have rows: "csvRows header_twice = [Row ''name'' ''price'' ''expiration'']"
    by code_simp
  have g: "getExchangeRates sample_env sample_world =
             (sample_world\<lparr>cache := Some \<lparr>date = now sample_env,
                 rates = [(''EUR'', Decimal 9 (- 1)), (''USD'', Decimal 1 0)]\<rparr>\<rparr>,
              Inr \<lparr>date = now sample_env,
                   rates = [(''EUR'', Decimal 9 (- 1)), (''USD'', Decimal 1 0)]\<rparr>)"
    by (simp add: getExchangeRates_def sample_env_facts sample_world_def Let_def)
  have sk: "checkRow z xr (Row ''name'' ''price'' ''expiration'') = Skipped" for z xr
    by (simp add: checkRow_Skipped repeatsHeader_def)
  show ?thesis
    by (simp add: processCSVFileWithMetrics_def processRows_def rows g sample_env_facts
          parseRows_def onData_def initial_state_def sk Let_def)
qed

text \<open>
  C2, as stated, fails on a file whose data row repeats the header: the file has one
  data row after the header, and the run returns no success and no error.
\<close>

theorem repeated_header_not_counted:
  "snd (processCSVFileWithMetrics sample_env sample_world header_twice) =
     Inr \<lparr>res_successCount = 0, res_errors = []\<rparr>
   \<and> length (csvRows header_twice) = 1"
proof -
  have "length (csvRows header_twice) = 1" by code_simp
  with header_twice_result show ?thesis by simp
qed

text \<open>
  C2, amended. When the parse and validation stage completes, every data row that the
  parser emits for the file (the header line is skipped by the parser) and that does
  not repeat the header is counted exactly once, as a success or as an error: the
  successes, the errors and the emitted rows that repeat the header add up to the
  number of emitted rows. This holds for every list of rows, however the parser cut
  them out of the file.
\<close>

theorem counts_cover_emitted_rows:
  assumes "snd (processRows e w rows) = Inr r"
  shows "res_successCount r + length (res_errors r)
           + length (filter repeatsHeader rows) = length rows"
proof -
  from processRows_result[OF assms] obtain w1 :: world and rd :: exchange_rates where
    "r = \<lparr>res_successCount =
             successCount (parseRows (localTZA e)
               \<lparr>date = date rd, rates = getSelectedCurrencies (rates rd)\<rparr> rows),
          res_errors =
             errors (parseRows (localTZA e)
               \<lparr>date = date rd, rates = getSelectedCurrencies (rates rd)\<rparr> rows)\<rparr>"
    by blast
  then show ?thesis
    by (simp add: parseRows_counts)
qed

theorem counts_cover_emitted_rows_witness:
  "snd (processRows sample_env sample_world
          [Row ''Apple'' ''$10.00'' ''12/31/2024'', Row [] ''5.00'' ''01/01/2025'',
           Row ''Pear'' ''abc'' ''02/02/2025'']) =
     Inr \<lparr>res_successCount = 1,
          res_errors =
            [\<lparr>row = Row [] ''5.00'' ''01/01/2025'', error = ''Missing required fields'',
              line = 2\<rparr>,
             \<lparr>row = Row ''Pear'' ''abc'' ''02/02/2025'',
              error = ''Invalid price format: abc'', line = 3\<rparr>]\<rparr>
   \<and> (1::nat) + 2
       + length (filter repeatsHeader
           [Row ''Apple'' ''$10.00'' ''12/31/2024'', Row [] ''5.00'' ''01/01/2025'',
            Row ''Pear'' ''abc'' ''02/02/2025'']) = 3"
proof -
  have h: "snd (processRows sample_env sample_world
          [Row ''Apple'' ''$10.00'' ''12/31/2024'', Row [] ''5.00'' ''01/01/2025'',
           Row ''Pear'' ''abc'' ''02/02/2025'']) =
     Inr \<lparr>res_successCount = 1,
          res_errors =
            [\<lparr>row = Row [] ''5.00'' ''01/01/2025'', error = ''Missing required fields'',
              line = 2\<rparr>,
             \<lparr>row = Row ''Pear'' ''abc'' ''02/02/2025'',
              error = ''Invalid price format: abc'', line = 3\<rparr>]\<rparr>"
    using scenario_sample_result
    by (simp only: processCSVFileWithMetrics_def scenario_rows)
  from counts_cover_emitted_rows[OF h] h show ?thesis
    by simp
qed

section \<open>Properties of the pipeline\<close>

subsection \<open>What a run leaves untouched\<close>


lemma getExchangeRates_hit:
  "cache w = Some c \<Longrightarrow> getExchangeRates e w = (w, Inr c)"
  by (simp add: getExchangeRates_def)

lemma getExchangeRates_down:
  "cache w = None \<Longrightarrow> provider e = Inl err \<Longrightarrow>
   getExchangeRates e w = (w, Inl (Error ''Failed to fetch exchange rates''))"
  by (simp add: getExchangeRates_def)

lemma processRows_rates_down:
  assumes "cache w = None" and "provider e = Inl err"
  shows "processRows e w rows = (w, Inl (Error ''Failed to fetch exchange rates''))"
  by (simp add: processRows_def getExchangeRates_down[OF assms])

text \<open>
  C5. When the cache has no snapshot and the provider fails, the run is rejected with
  the error of \<open>getExchangeRates\<close> before any row is read: the world is returned as it
  was, so no product was built, no call reached the collection and the catalog is
  unchanged. The same holds for the file and for the buffer variant.
\<close>

theorem rates_failure_rejects_run:
  assumes "cache w = None" and "provider e = Inl err"
  shows "processCSVFileWithMetrics e w text = (w, Inl (Error ''Failed to fetch exchange rates''))
       \<and> processCSVFileFromBuffer e w text = (w, Inl (Error ''Failed to fetch exchange rates''))
       \<and> catalog (fst (processCSVFileWithMetrics e w text)) = catalog w
       \<and> db_log (fst (processCSVFileWithMetrics e w text)) = db_log w"
  by (simp add: processCSVFileWithMetrics_def processCSVFileFromBuffer_def
        processRows_rates_down[OF assms])

theorem rates_failure_rejects_run_witness:
  "cache sample_world = None
   \<and> provider provider_down = Inl (Error ''connect ECONNREFUSED'')
   \<and> processCSVFileWithMetrics provider_down sample_world scenario_input =
       (sample_world, Inl (Error ''Failed to fetch exchange rates''))
   \<and> catalog (fst (processCSVFileWithMetrics provider_down sample_world scenario_input)) =
       [old_product]
   \<and> db_log (fst (processCSVFileWithMetrics provider_down sample_world scenario_input)) = []"
proof -
  have h1: "cache sample_world = None" by (simp add: sample_world_def)
  have h2: "provider provider_down = Inl (Error ''connect ECONNREFUSED'')"
    by (simp add: provider_down_def)
  show ?thesis
    using rates_failure_rejects_run[OF h1 h2, of scenario_input] h1 h2
    by (simp add: sample_world_def)
qed

subsection \<open>The batch loop\<close>

declare batchLoop.simps [simp del]

lemma batchLoop_done:
  "length products \<le> i \<Longrightarrow> batchLoop e i products w = w"
  by (subst batchLoop.simps) simp

lemma batchLoop_unfold:
  assumes "i < length products"
  shows "batchLoop e i products w =
           batchLoop e (i + batchSize) products
             (w\<lparr>db_log := db_log w @ [InsertMany (i div batchSize + 1)
                                          (slice i (i + batchSize) products)],
                catalog := catalog w
                  @ fst (insertMany_result e (i div batchSize + 1)
                           (slice i (i + batchSize) products)),
                counters := counters w
                  @ [batchCounter (insertMany_result e (i div batchSize + 1)
                                     (slice i (i + batchSize) products))]\<rparr>)"
proof (cases "insertMany_result e (i div batchSize + 1) (slice i (i + batchSize) products)")
  case (Pair written err)
  show ?thesis
  proof (cases err)
    case None
    with Pair assms show ?thesis
      by (subst batchLoop.simps) (simp add: Let_def batchCounter_def)
  next
    case (Some batchError)
    with Pair assms show ?thesis
      by (subst batchLoop.simps) (simp add: Let_def batchCounter_def)
  qed
qed

lemma batchLoop_step:
  assumes "k * batchSize < length products"
  shows "batchLoop e (k * batchSize) products w =
           batchLoop e (Suc k * batchSize) products
             (w\<lparr>db_log := db_log w @ [InsertMany (k + 1) (batchOf products k)],
                catalog := catalog w @ fst (insertMany_result e (k + 1) (batchOf products k)),
                counters := counters w
                  @ [batchCounter (insertMany_result e (k + 1) (batchOf products k))]\<rparr>)"
proof -
  have d: "k * batchSize div batchSize = k"
    by (simp add: batchSize_def)
  have n: "k * batchSize + batchSize = Suc k * batchSize"
    by simp
  show ?thesis
    using batchLoop_unfold[OF assms, of e w]
    unfolding batchOf_def d n .
qed

lemma batch_bounds:
  "k * batchSize < n \<longleftrightarrow> k < batchCount n"
  unfolding batchSize_def batchCount_def by arith

lemma batchLoop_from:
  "batchLoop e (k * batchSize) products w =
     w\<lparr>db_log := db_log w
          @ map (\<lambda>j. InsertMany (j + 1) (batchOf products j)) [k..<batchCount (length products)],
       catalog := catalog w
          @ concat (map (\<lambda>j. fst (insertMany_result e (j + 1) (batchOf products j)))
                     [k..<batchCount (length products)]),
       counters := counters w
          @ map (\<lambda>j. batchCounter (insertMany_result e (j + 1) (batchOf products j)))
              [k..<batchCount (length products)]\<rparr>"
proof (induction "batchCount (length products) - k" arbitrary: k w)
  case 0
  then have ge: "batchCount (length products) \<le> k" by simp
  then have "\<not> k * batchSize < length products"
    by (simp add: batch_bounds)
  then have le: "length products \<le> k * batchSize" by simp
  have e: "[k..<batchCount (length products)] = []"
    using ge by simp
  show ?case
    unfolding e by (simp add: batchLoop_done[OF le])
next
  case (Suc m)
  then have lt: "k < batchCount (length products)" and m: "m = batchCount (length products) - Suc k"
    by simp_all
  from lt have "k * batchSize < length products"
    by (simp add: batch_bounds)
  note step = batchLoop_step[OF this, of e w]
  from lt have upt: "[k..<batchCount (length products)] = k # [Suc k..<batchCount (length products)]"
    by (simp add: upt_conv_Cons)
  show ?case
    unfolding upt step Suc.hyps(1)[OF m] by simp
qed
lemma batchOf_length: "length (batchOf products k) \<le> batchSize"
  by (simp add: batchOf_def slice_def)

lemma batches_from:
  "concat (map (batchOf products) [k..<batchCount (length products)]) = drop (k * batchSize) products"
proof (induction "batchCount (length products) - k" arbitrary: k)
  case 0
  then have ge: "batchCount (length products) \<le> k" by simp
  then have "\<not> k * batchSize < length products"
    by (simp add: batch_bounds)
  then show ?case using ge by simp
next
  case (Suc m)
  then have lt: "k < batchCount (length products)" and m: "m = batchCount (length products) - Suc k"
    by simp_all
  from lt have upt: "[k..<batchCount (length products)] = k # [Suc k..<batchCount (length products)]"
    by (simp add: upt_conv_Cons)
  have "take batchSize (drop (k * batchSize) products)
          @ drop (batchSize + k * batchSize) products = drop (k * batchSize) products"
    by (metis append_take_drop_id drop_drop)
  then have "batchOf products k @ drop (Suc k * batchSize) products = drop (k * batchSize) products"
    by (simp add: batchOf_def slice_def)
  then show ?case
    unfolding upt using Suc.hyps(1)[OF m] by simp
qed

lemma batches_partition:
  "concat (map (batchOf products) [0..<batchCount (length products)]) = products"
  using batches_from[of products 0] by simp

lemma processProductsInBatches_ok:
  assumes "deleteMany_error e = None"
  shows "processProductsInBatches e w products =
     (w\<lparr>db_log := db_log w @ DeleteMany
            # map (\<lambda>j. InsertMany (j + 1) (batchOf products j)) [0..<batchCount (length products)],
        catalog := concat (map (\<lambda>j. fst (insertMany_result e (j + 1) (batchOf products j)))
                             [0..<batchCount (length products)]),
        counters := counters w @ ''database.products.cleared''
            # map (\<lambda>j. batchCounter (insertMany_result e (j + 1) (batchOf products j)))
                [0..<batchCount (length products)]\<rparr>,
      Inr ())"
  using batchLoop_from[of e 0 products]
  by (simp add: processProductsInBatches_def assms Let_def)


text \<open>
  C6. Once the collection is cleared, an insert is issued for every batch of 1000
  products, in order, whatever the earlier inserts did: the stage returns normally
  (every batch error is caught), the batches are the consecutive slices of the list,
  each insert is counted as inserted or failed by its own outcome, and the catalog is
  what the inserts wrote, batch by batch. So when the insert of batch \<open>k\<close> throws and a
  batch \<open>k + 1\<close> exists, the failure is counted, the insert of batch \<open>k + 1\<close> is still
  issued, and the documents it writes are in the catalog.
\<close>

theorem batch_failure_is_isolated:
  assumes del: "deleteMany_error e = None"
    and next_batch: "k + 1 < batchCount (length products)"
    and fails: "snd (insertMany_result e (k + 1) (batchOf products k)) = Some err"
  shows "snd (processProductsInBatches e w products) = Inr ()
       \<and> db_log (fst (processProductsInBatches e w products)) =
           db_log w @ DeleteMany
             # map (\<lambda>j. InsertMany (j + 1) (batchOf products j)) [0..<batchCount (length products)]
       \<and> catalog (fst (processProductsInBatches e w products)) =
           concat (map (\<lambda>j. fst (insertMany_result e (j + 1) (batchOf products j)))
                    [0..<batchCount (length products)])
       \<and> concat (map (batchOf products) [0..<batchCount (length products)]) = products
       \<and> length (batchOf products (k + 1)) \<le> 1000
       \<and> ''database.batch.failed'' \<in> set (counters (fst (processProductsInBatches e w products)))
       \<and> InsertMany (k + 2) (batchOf products (k + 1))
           \<in> set (db_log (fst (processProductsInBatches e w products)))
       \<and> set (fst (insertMany_result e (k + 2) (batchOf products (k + 1))))
           \<subseteq> set (catalog (fst (processProductsInBatches e w products)))"
proof -
  let ?n = "batchCount (length products)"
  have k: "k \<in> set [0..<?n]" and k1: "k + 1 \<in> set [0..<?n]"
    using next_batch by simp_all
  have failed: "batchCounter (insertMany_result e (k + 1) (batchOf products k)) = ''database.batch.failed''"
    using fails by (simp add: batchCounter_def)
  have c: "''database.batch.failed''
             \<in> (\<lambda>j. batchCounter (insertMany_result e (j + 1) (batchOf products j))) ` set [0..<?n]"
    using imageI[OF k, of "\<lambda>j. batchCounter (insertMany_result e (j + 1) (batchOf products j))"]
    by (simp only: failed)
  have i: "InsertMany (k + 1 + 1) (batchOf products (k + 1))
             \<in> (\<lambda>j. InsertMany (j + 1) (batchOf products j)) ` set [0..<?n]"
    using k1 by (rule imageI)
  have "set (fst (insertMany_result e (k + 1 + 1) (batchOf products (k + 1))))
             \<subseteq> (\<Union>j\<in>set [0..<?n]. set (fst (insertMany_result e (j + 1) (batchOf products j))))"
    using k1 by (rule UN_upper)
  then have s: "set (fst (insertMany_result e (k + 2) (batchOf products (k + 1))))
             \<subseteq> (\<Union>j\<in>set [0..<?n]. set (fst (insertMany_result e (j + 1) (batchOf products j))))"
    by (simp add: numeral_2_eq_2)
  have k2: "k + 1 + 1 = k + 2" by simp
  have b: "length (batchOf products (k + 1)) \<le> 1000"
    using batchOf_length[of products "k + 1"] by (simp add: batchSize_def)
  show ?thesis
    unfolding processProductsInBatches_ok[OF del]
    using c i[unfolded k2] s b batches_partition[of products]
    by (simp del: set_upt)
qed
lemma two_batches_facts:
  "batchCount (length two_batches) = 2"
  "batchOf two_batches 0 = replicate 1000 old_product"
  "batchOf two_batches 1 = [apple_product]"
  "batchOf two_batches (Suc 0) = [apple_product]"
  by (simp_all add: two_batches_def batchCount_def batchOf_def slice_def batchSize_def)

theorem batch_failure_is_isolated_witness:
  "deleteMany_error first_batch_fails = None
   \<and> 0 + 1 < batchCount (length two_batches)
   \<and> snd (insertMany_result first_batch_fails (0 + 1) (batchOf two_batches 0)) =
       Some (Error ''write failed'')
   \<and> snd (processProductsInBatches first_batch_fails sample_world two_batches) = Inr ()
   \<and> InsertMany 2 [apple_product]
       \<in> set (db_log (fst (processProductsInBatches first_batch_fails sample_world two_batches)))
   \<and> apple_product
       \<in> set (catalog (fst (processProductsInBatches first_batch_fails sample_world two_batches)))"
proof -
  have h1: "deleteMany_error first_batch_fails = None"
    by (simp add: first_batch_fails_def sample_env_def)
  have h2: "0 + 1 < batchCount (length two_batches)"
    by (simp add: two_batches_facts)
  have h3: "snd (insertMany_result first_batch_fails (0 + 1) (batchOf two_batches 0)) =
              Some (Error ''write failed'')"
    by (simp add: first_batch_fails_def)
  have w: "fst (insertMany_result first_batch_fails (0 + 2) (batchOf two_batches (0 + 1))) =
             [apple_product]"
    by (simp add: first_batch_fails_def two_batches_facts)
  have b1: "batchOf two_batches (0 + 1) = [apple_product]"
    by (simp add: two_batches_facts)
  note t = batch_failure_is_isolated[OF h1 h2 h3, of sample_world]
  from t have a: "snd (processProductsInBatches first_batch_fails sample_world two_batches) = Inr ()"
    by blast
  from t have "InsertMany (0 + 2) (batchOf two_batches (0 + 1))
      \<in> set (db_log (fst (processProductsInBatches first_batch_fails sample_world two_batches)))"
    by blast
  then have b: "InsertMany 2 [apple_product]
      \<in> set (db_log (fst (processProductsInBatches first_batch_fails sample_world two_batches)))"
    unfolding b1 by (simp add: numeral_2_eq_2)
  from t have "set (fst (insertMany_result first_batch_fails (0 + 2) (batchOf two_batches (0 + 1))))
      \<subseteq> set (catalog (fst (processProductsInBatches first_batch_fails sample_world two_batches)))"
    by blast
  then have c: "apple_product
      \<in> set (catalog (fst (processProductsInBatches first_batch_fails sample_world two_batches)))"
    unfolding w by simp
  from h1 h2 h3 a b c show ?thesis
    by (intro conjI)
qed

subsection \<open>Runs without a valid row\<close>







subsection \<open>Two runs on the same file\<close>

lemma batchLoop_cache: "cache (batchLoop e (k * batchSize) products w) = cache w"
  by (simp add: batchLoop_from)

lemma processProductsInBatches_cache:
  "cache (fst (processProductsInBatches e w products)) = cache w"
  using batchLoop_cache[of e 0 products]
  by (simp add: processProductsInBatches_def Let_def split: option.splits)

lemma processRows_cache_hit:
  assumes "cache w = Some c"
  shows "cache (fst (processRows e w rows)) = Some c"
proof -
  let ?st = "parseRows (localTZA e) \<lparr>date = date c, rates = getSelectedCurrencies (rates c)\<rparr> rows"
  obtain w2 res where p: "processProductsInBatches e w (results ?st) = (w2, res)"
    by (cases "processProductsInBatches e w (results ?st)")
  have "cache w2 = cache w"
    using processProductsInBatches_cache[of e w "results ?st"] p by simp
  then show ?thesis
    using assms
    by (cases res)
       (simp_all add: processRows_def getExchangeRates_hit[OF assms] Let_def p
             split: option.splits)
qed

lemma processRows_result_hit:
  assumes "cache w = Some c" and "snd (processRows e w rows) = Inr r"
  shows "r = \<lparr>res_successCount =
                 successCount (parseRows (localTZA e)
                   \<lparr>date = date c, rates = getSelectedCurrencies (rates c)\<rparr> rows),
              res_errors =
                 errors (parseRows (localTZA e)
                   \<lparr>date = date c, rates = getSelectedCurrencies (rates c)\<rparr> rows)\<rparr>"
  using processRows_result[OF assms(2)] getExchangeRates_hit[OF assms(1), of e]
  by auto

text \<open>
  C9. Two runs on the same file that find the same snapshot in the cache, on servers
  with the same time zone, and that both return a result, return the same successCount
  and the same number of errors (indeed the same errors), whatever the catalog was
  before each run and whatever the database and the provider do during it. A run that
  finds the snapshot in the cache leaves it there for the next run.
\<close>

theorem counts_are_deterministic:
  assumes "cache w1 = Some snapshot" and "cache w2 = Some snapshot"
    and "localTZA e1 = localTZA e2"
    and "snd (processCSVFileWithMetrics e1 w1 text) = Inr r1"
    and "snd (processCSVFileWithMetrics e2 w2 text) = Inr r2"
  shows "res_successCount r1 = res_successCount r2
       \<and> length (res_errors r1) = length (res_errors r2)
       \<and> res_errors r1 = res_errors r2
       \<and> cache (fst (processCSVFileWithMetrics e1 w1 text)) = Some snapshot"
  using processRows_result_hit[OF assms(1), of e1 "csvRows text" r1]
    processRows_result_hit[OF assms(2), of e2 "csvRows text" r2]
    processRows_cache_hit[OF assms(1), of e1 "csvRows text"] assms(3,4,5)
  by (simp add: processCSVFileWithMetrics_def)

lemma cached_world_facts:
  "cache cached_world = Some sample_snapshot" "catalog cached_world = [old_product]"
  by (simp_all add: cached_world_def sample_world_def)

lemma first_batch_fails_facts:
  "\<bar>localTZA first_batch_fails\<bar> \<le> msPerDay" "localTZA first_batch_fails = localTZA sample_env"
  "stream_fault first_batch_fails = None" "deleteMany_error first_batch_fails = None"
  by (simp_all add: first_batch_fails_def sample_env_def msPerDay_def)

theorem counts_are_deterministic_witness:
  "cache cached_world = Some sample_snapshot
   \<and> cache (fst (processCSVFileWithMetrics sample_env cached_world scenario_input)) =
       Some sample_snapshot
   \<and> localTZA sample_env = localTZA first_batch_fails
   \<and> (\<exists>r1 r2.
         snd (processCSVFileWithMetrics sample_env cached_world scenario_input) = Inr r1
       \<and> snd (processCSVFileWithMetrics first_batch_fails
                (fst (processCSVFileWithMetrics sample_env cached_world scenario_input))
                scenario_input) = Inr r2
       \<and> res_successCount r1 = 1 \<and> res_successCount r2 = 1
       \<and> length (res_errors r1) = 2 \<and> length (res_errors r2) = 2)"
proof -
  let ?w2 = "fst (processCSVFileWithMetrics sample_env cached_world scenario_input)"
  let ?r = "\<lparr>res_successCount = 1,
             res_errors =
               [\<lparr>row = Row [] ''5.00'' ''01/01/2025'', error = ''Missing required fields'',
                 line = 2\<rparr>,
                \<lparr>row = Row ''Pear'' ''abc'' ''02/02/2025'',
                 error = ''Invalid price format: abc'', line = 3\<rparr>]\<rparr>"
  have h1: "cache cached_world = Some sample_snapshot"
    by (rule cached_world_facts)
  have h2: "cache ?w2 = Some sample_snapshot"
    unfolding processCSVFileWithMetrics_def by (rule processRows_cache_hit[OF h1])
  have h3: "localTZA sample_env = localTZA first_batch_fails"
    by (simp add: first_batch_fails_facts)
  have h4: "snd (processCSVFileWithMetrics sample_env cached_world scenario_input) = Inr ?r"
    by (rule scenario_result[where c = sample_snapshot and rs = "[]"])
       (simp_all add: sample_env_facts h1)
  have h5: "snd (processCSVFileWithMetrics first_batch_fails ?w2 scenario_input) = Inr ?r"
    by (rule scenario_result[where c = sample_snapshot and rs = "[]"])
       (simp_all add: first_batch_fails_facts sample_env_facts h2)
  from counts_are_deterministic[OF h1 h2 h3 h4 h5] h1 h2 h3 h4 h5
  show ?thesis by simp
qed

section \<open>Properties of the queue client and the orchestrator\<close>

subsection \<open>Failed deliveries\<close>

lemma retry_requeue_keeps_headers:
  assumes "requeued (consumeCsvQueue_retry run (Some m)) = Some m'"
  shows "headers m' = headers m \<and> retryCount m' = retryCount m"
  using assms
  by (auto simp: consumeCsvQueue_retry_def retryCount_def split: sum.splits if_splits)

lemma retry_without_header:
  assumes "map_of (headers m) ''x-retry-count'' = None"
  shows "consumeCsvQueue_retry (\<lambda>c. Inl err) (Some m) = [Nack m False True]"
  using assms by (simp add: consumeCsvQueue_retry_def retryCount_def)

lemma retry_forever:
  assumes "map_of (headers m) ''x-retry-count'' = None"
  shows "deliveries (consumeCsvQueue_retry (\<lambda>c. Inl err)) (Suc n) m = Some (m\<lparr>redelivered := True\<rparr>)"
  using assms
proof (induction n arbitrary: m)
  case 0
  then show ?case by (simp add: retry_without_header)
next
  case (Suc n)
  have "map_of (headers (m\<lparr>redelivered := True\<rparr>)) ''x-retry-count'' = None"
    using Suc.prems by simp
  from Suc.IH[OF this] show ?case
    using Suc.prems by (simp add: retry_without_header)
qed

text \<open>
  C3. Neither consumer does what the claim describes for a message whose handler keeps
  failing. The callback of \<open>rabbitmq.service.ts\<close> reads no counter and rejects the
  message without requeue at the first failure. The callback of \<open>rabbitmq.config.ts\<close>
  computes the counter from the header \<open>x-retry-count\<close> but only negatively
  acknowledges the delivery it received: the message goes back unchanged, the header
  is never written, so the counter is 1 at every delivery and the message published by
  \<open>sendToCsvQueue\<close> is requeued after every failure, without end.
\<close>

theorem retry_counter_is_never_stored:
  "consumeCsvQueue (\<lambda>c. Inl err) (Some queued_message) = [Nack queued_message False False]
   \<and> deliveries (consumeCsvQueue (\<lambda>c. Inl err)) (Suc n) queued_message = None
   \<and> consumeCsvQueue_retry (\<lambda>c. Inl err) (Some queued_message) = [Nack queued_message False True]
   \<and> retryCount queued_message = 1
   \<and> deliveries (consumeCsvQueue_retry (\<lambda>c. Inl err)) (Suc n) queued_message =
       Some (queued_message\<lparr>redelivered := True\<rparr>)
   \<and> retryCount (queued_message\<lparr>redelivered := True\<rparr>) = 1"
proof -
  have h: "map_of (headers queued_message) ''x-retry-count'' = None"
    by (simp add: queued_message_def)
  have "deliveries (consumeCsvQueue (\<lambda>c. Inl err)) (Suc n) queued_message = None"
    by (simp add: consumeCsvQueue_def)
  then show ?thesis
    using retry_forever[OF h, of err n] retry_without_header[OF h, of err] h
    by (simp add: consumeCsvQueue_def retryCount_def)
qed

subsection \<open>Publishing and the synchronous fallback\<close>




lemma processProductsInBatches_files:
  "processProductsInBatches e (w\<lparr>files := fs\<rparr>) products =
     ((fst (processProductsInBatches e w products))\<lparr>files := fs\<rparr>,
      snd (processProductsInBatches e w products))"
  using batchLoop_from[of e 0 products]
  by (simp add: processProductsInBatches_def Let_def split: option.splits)

lemma getExchangeRates_files:
  "getExchangeRates e (w\<lparr>files := fs\<rparr>) =
     ((fst (getExchangeRates e w))\<lparr>files := fs\<rparr>, snd (getExchangeRates e w))"
  by (simp add: getExchangeRates_def Let_def split: option.splits sum.splits)

lemma processRows_files:
  "processRows e (w\<lparr>files := fs\<rparr>) rows =
     ((fst (processRows e w rows))\<lparr>files := fs\<rparr>, snd (processRows e w rows))"
proof (cases "getExchangeRates e w")
  case (Pair w1 res)
  then have g: "getExchangeRates e (w\<lparr>files := fs\<rparr>) = (w1\<lparr>files := fs\<rparr>, res)"
    by (simp add: getExchangeRates_files)
  show ?thesis
    by (cases res)
       (simp_all add: processRows_def Pair g Let_def processProductsInBatches_files
             split: option.splits prod.splits sum.splits)
qed

subsection \<open>The outcomes of a run\<close>















text \<open>
  The second way into the fallback: the client is connected, the staged file is
  written, and \<open>publish\<close> returns false. The buffer is processed in the same call and
  the staged file is removed again.
\<close>

lemma full_buffer_falls_back:
  "waitForConnection buffer_full = Inr True
   \<and> sendToCsvQueue buffer_full ts path = Inr False
   \<and> snd (processCSVFromUpload sample_env buffer_full sample_world (Some sample_upload)) =
       Inr \<lparr>processed = 1, summary_errors = 2\<rparr>
   \<and> files (fst (processCSVFromUpload sample_env buffer_full sample_world (Some sample_upload))) = []"
proof -
  let ?p = "tempFilePath sample_env sample_upload"
  have w: "waitForConnection buffer_full = Inr True"
    by (simp add: waitForConnection_def ensureConnected_def buffer_full_def)
  have s: "sendToCsvQueue buffer_full ts' path' = Inr False" for ts' path'
    by (simp add: sendToCsvQueue_def ensureConnected_def buffer_full_def)
  have r: "snd (processRows sample_env sample_world (csvRows scenario_input)) =
             Inr \<lparr>res_successCount = 1,
                  res_errors =
                    [\<lparr>row = Row [] ''5.00'' ''01/01/2025'', error = ''Missing required fields'',
                      line = 2\<rparr>,
                     \<lparr>row = Row ''Pear'' ''abc'' ''02/02/2025'',
                      error = ''Invalid price format: abc'', line = 3\<rparr>]\<rparr>"
    using scenario_sample_result by (simp add: processCSVFileWithMetrics_def)
  have f: "files sample_world = []"
    by (simp add: sample_world_def)
  have p: "processCSVFileFromBuffer sample_env (sample_world\<lparr>files := [?p]\<rparr>) scenario_input =
             ((fst (processRows sample_env sample_world (csvRows scenario_input)))\<lparr>files := [?p]\<rparr>,
              snd (processRows sample_env sample_world (csvRows scenario_input)))"
    by (simp add: processCSVFileFromBuffer_def processRows_files)
  have "processCSVFromUpload sample_env buffer_full sample_world (Some sample_upload) =
          ((fst (processRows sample_env sample_world (csvRows scenario_input)))\<lparr>files := []\<rparr>,
           Inr \<lparr>processed = 1, summary_errors = 2\<rparr>)"
    by (simp add: processCSVFromUpload_def sample_upload_def[THEN arg_cong, of buffer]
          w s f p r sample_env_facts Let_def)
  with w s show ?thesis by simp
qed

end
